theory Spec2Isabelle
  imports Complex_Main "HOL-Library.Monad_Syntax"
begin

section \<open>Floating-point values\<close>

text \<open>
  The tracker computes on NumPy arrays of 64-bit floats. Rounding and overflow are not
  modelled: a finite float is a real number. The special values are modelled, because
  the code divides without a guard and NumPy then stores an infinity or a NaN instead
  of raising. The sign of zero is not modelled (a zero divisor counts as \<open>+0\<close>).
\<close>

datatype npfloat = Fin real | PInf | NInf | NaN

fun isfinite :: "npfloat \<Rightarrow> bool" where
  "isfinite (Fin a) = True"
| "isfinite PInf = False"
| "isfinite NInf = False"
| "isfinite NaN = False"

fun np_neg :: "npfloat \<Rightarrow> npfloat" where
  "np_neg (Fin a) = Fin (- a)"
| "np_neg PInf = NInf"
| "np_neg NInf = PInf"
| "np_neg NaN = NaN"

fun np_add :: "npfloat \<Rightarrow> npfloat \<Rightarrow> npfloat" where
  "np_add NaN b = NaN"
| "np_add a NaN = NaN"
| "np_add (Fin a) (Fin b) = Fin (a + b)"
| "np_add PInf NInf = NaN"
| "np_add NInf PInf = NaN"
| "np_add PInf b = PInf"
| "np_add NInf b = NInf"
| "np_add (Fin a) PInf = PInf"
| "np_add (Fin a) NInf = NInf"

definition np_sub :: "npfloat \<Rightarrow> npfloat \<Rightarrow> npfloat" where
  "np_sub a b = np_add a (np_neg b)"

text \<open>The sign of a value that is not NaN: \<open>-1\<close>, \<open>0\<close> or \<open>1\<close>.\<close>

fun np_sign :: "npfloat \<Rightarrow> int" where
  "np_sign (Fin a) = (if a < 0 then - 1 else if a = 0 then 0 else 1)"
| "np_sign PInf = 1"
| "np_sign NInf = - 1"
| "np_sign NaN = 0"

definition signed_inf :: "int \<Rightarrow> npfloat" where
  "signed_inf s = (if s = 0 then NaN else if 0 < s then PInf else NInf)"

fun np_mul :: "npfloat \<Rightarrow> npfloat \<Rightarrow> npfloat" where
  "np_mul NaN b = NaN"
| "np_mul a NaN = NaN"
| "np_mul (Fin a) (Fin b) = Fin (a * b)"
| "np_mul a b = signed_inf (np_sign a * np_sign b)"

text \<open>
  NumPy's true division: \<open>0/0\<close> and \<open>inf/inf\<close> are NaN, a non-zero finite value
  over zero is an infinity of the dividend's sign, a finite value over an infinity is zero.
\<close>

fun np_div :: "npfloat \<Rightarrow> npfloat \<Rightarrow> npfloat" where
  "np_div NaN b = NaN"
| "np_div a NaN = NaN"
| "np_div (Fin a) (Fin b) = (if b = 0 then signed_inf (np_sign (Fin a)) else Fin (a / b))"
| "np_div (Fin a) b = Fin 0"
| "np_div a (Fin b) = signed_inf (np_sign a * (if b < 0 then - 1 else 1))"
| "np_div a b = NaN"

text \<open>Comparisons: every comparison with NaN is false.\<close>

fun np_lt :: "npfloat \<Rightarrow> npfloat \<Rightarrow> bool" where
  "np_lt NaN b = False"
| "np_lt a NaN = False"
| "np_lt (Fin a) (Fin b) = (a < b)"
| "np_lt a PInf = (a \<noteq> PInf)"
| "np_lt NInf b = (b \<noteq> NInf)"
| "np_lt a b = False"

fun np_le :: "npfloat \<Rightarrow> npfloat \<Rightarrow> bool" where
  "np_le NaN b = False"
| "np_le a NaN = False"
| "np_le a b = (a = b \<or> np_lt a b)"

definition np_gt :: "npfloat \<Rightarrow> npfloat \<Rightarrow> bool" where
  "np_gt a b = np_lt b a"

definition np_ge :: "npfloat \<Rightarrow> npfloat \<Rightarrow> bool" where
  "np_ge a b = np_le b a"

text \<open>\<open>np.maximum\<close> and \<open>np.minimum\<close> propagate NaN.\<close>

fun np_maximum :: "npfloat \<Rightarrow> npfloat \<Rightarrow> npfloat" where
  "np_maximum NaN b = NaN"
| "np_maximum a NaN = NaN"
| "np_maximum a b = (if np_lt a b then b else a)"

fun np_minimum :: "npfloat \<Rightarrow> npfloat \<Rightarrow> npfloat" where
  "np_minimum NaN b = NaN"
| "np_minimum a NaN = NaN"
| "np_minimum a b = (if np_lt b a then b else a)"

section \<open>Geometry kernel (matching: box\_iou\_batch)\<close>

text \<open>
  A box is a row \<open>[x_min, y_min, x_max, y_max]\<close>. \<open>box_iou\<close> is one entry of the
  matrix that \<open>box_iou_batch\<close> computes by broadcasting: the areas, the corners of the
  intersection, the product of the clipped extents, and the unguarded quotient. The
  boxes of the tracker are rows of exactly four columns; any other row is rejected
  (\<open>None\<close>).
\<close>

fun box_iou :: "npfloat list \<Rightarrow> npfloat list \<Rightarrow> npfloat option" where
  "box_iou [ax1, ay1, ax2, ay2] [bx1, by1, bx2, by2] =
     (let area_true = np_mul (np_sub ax2 ax1) (np_sub ay2 ay1);
          area_detection = np_mul (np_sub bx2 bx1) (np_sub by2 by1);
          top_left_x = np_maximum ax1 bx1;
          top_left_y = np_maximum ay1 by1;
          bottom_right_x = np_minimum ax2 bx2;
          bottom_right_y = np_minimum ay2 by2;
          area_inter = np_mul (np_maximum (np_sub bottom_right_x top_left_x) (Fin 0))
                              (np_maximum (np_sub bottom_right_y top_left_y) (Fin 0))
      in Some (np_div area_inter (np_sub (np_add area_true area_detection) area_inter)))"
| "box_iou _ _ = None"

definition box_iou_batch :: "npfloat list list \<Rightarrow> npfloat list list \<Rightarrow> npfloat list list option" where
  "box_iou_batch boxes_true boxes_detection =
     (if list_all (\<lambda>a. length a = 4) boxes_true \<and> list_all (\<lambda>b. length b = 4) boxes_detection
      then those (map (\<lambda>a. those (map (box_iou a) boxes_detection)) boxes_true)
      else None)"


section \<open>Vectors and matrices\<close>

text \<open>
  A vector is a list, a matrix a list of rows. The operations are those of NumPy that
  the Kalman filter uses: \<open>@\<close> on a vector and a matrix, on two matrices, the
  transpose, \<open>np.diag\<close>, \<open>np.eye\<close> and the element-wise sum and difference.
\<close>

definition dot :: "npfloat list \<Rightarrow> npfloat list \<Rightarrow> npfloat" where
  "dot u v = foldl np_add (Fin 0) (map2 np_mul u v)"

definition ncols :: "'a list list \<Rightarrow> nat" where
  "ncols A = (case A of [] \<Rightarrow> 0 | r # _ \<Rightarrow> length r)"

definition column :: "'a list list \<Rightarrow> nat \<Rightarrow> 'a list" where
  "column A j = map (\<lambda>r. r ! j) A"

definition mat_T :: "'a list list \<Rightarrow> 'a list list" where
  "mat_T A = map (column A) [0..<ncols A]"

definition vec_mat :: "npfloat list \<Rightarrow> npfloat list list \<Rightarrow> npfloat list" where
  "vec_mat v B = map (\<lambda>j. dot v (column B j)) [0..<ncols B]"

definition mat_vec :: "npfloat list list \<Rightarrow> npfloat list \<Rightarrow> npfloat list" where
  "mat_vec A v = map (\<lambda>r. dot r v) A"

definition mat_mul :: "npfloat list list \<Rightarrow> npfloat list list \<Rightarrow> npfloat list list" where
  "mat_mul A B = map (\<lambda>r. vec_mat r B) A"

definition vec_add :: "npfloat list \<Rightarrow> npfloat list \<Rightarrow> npfloat list" where
  "vec_add u v = map2 np_add u v"

definition vec_sub :: "npfloat list \<Rightarrow> npfloat list \<Rightarrow> npfloat list" where
  "vec_sub u v = map2 np_sub u v"

definition mat_add :: "npfloat list list \<Rightarrow> npfloat list list \<Rightarrow> npfloat list list" where
  "mat_add A B = map2 vec_add A B"

definition mat_sub :: "npfloat list list \<Rightarrow> npfloat list list \<Rightarrow> npfloat list list" where
  "mat_sub A B = map2 vec_sub A B"

definition diag :: "npfloat list \<Rightarrow> npfloat list list" where
  "diag v = map (\<lambda>i. map (\<lambda>j. if i = j then v ! i else Fin 0) [0..<length v]) [0..<length v]"

definition eye :: "nat \<Rightarrow> nat \<Rightarrow> npfloat list list" where
  "eye n m = map (\<lambda>i. map (\<lambda>j. if i = j then Fin 1 else Fin 0) [0..<m]) [0..<n]"

definition square :: "npfloat \<Rightarrow> npfloat" where
  "square x = np_mul x x"

definition is_vector :: "nat \<Rightarrow> 'a list \<Rightarrow> bool" where
  "is_vector n v = (length v = n)"

definition is_matrix :: "nat \<Rightarrow> nat \<Rightarrow> 'a list list \<Rightarrow> bool" where
  "is_matrix n m A = (length A = n \<and> list_all (\<lambda>r. length r = m) A)"

section \<open>Cholesky factorisation and solve (scipy.linalg)\<close>

text \<open>
  \<open>cho_factor\<close> and \<open>cho_solve\<close> belong to SciPy, not to the repository. They are
  modelled in exact arithmetic by the square-root-free form of the factorisation,
  \<open>S = L D L\<^sup>T\<close> with a unit lower triangle \<open>L\<close>: it has the pivots of the Cholesky
  factor squared, so it fails (LinAlgError, here \<open>None\<close>) on the same matrices, those
  with a pivot that is not positive, and it yields the same solution of \<open>S X = B\<close>.
  Row \<open>i\<close> of the factor holds \<open>L i 0 .. L i (i - 1)\<close> and then the pivot \<open>D i\<close>.
  None of the properties proved below depends on the values.
\<close>

definition pivots :: "npfloat list list \<Rightarrow> npfloat list" where
  "pivots Ls = map (\<lambda>k. Ls ! k ! k) [0..<length Ls]"

definition chol_offdiag :: "npfloat list list \<Rightarrow> npfloat list \<Rightarrow> npfloat list" where
  "chol_offdiag Ls s =
     foldl (\<lambda>acc Lj. acc @ [np_div (np_sub (s ! length acc)
                                    (dot (map2 np_mul acc (pivots Ls)) (take (length acc) Lj)))
                                  (Lj ! length acc)]) [] Ls"

fun chol_rows :: "npfloat list list \<Rightarrow> npfloat list list \<Rightarrow> npfloat list list option" where
  "chol_rows Ls [] = Some Ls"
| "chol_rows Ls (s # rest) =
     (let off = chol_offdiag Ls s;
          d = np_sub (s ! length Ls) (dot (map2 np_mul off (pivots Ls)) off)
      in if np_gt d (Fin 0) then chol_rows (Ls @ [off @ [d]]) rest else None)"

definition cho_factor :: "npfloat list list \<Rightarrow> npfloat list list option" where
  "cho_factor S = (if is_matrix (length S) (length S) S then chol_rows [] S else None)"

text \<open>
  Forward substitution \<open>L z = b\<close>, division by the pivots, back substitution
  \<open>L\<^sup>T x = y\<close>.
\<close>

definition forward_subst :: "npfloat list list \<Rightarrow> npfloat list \<Rightarrow> npfloat list" where
  "forward_subst L b =
     foldl (\<lambda>z Li. z @ [np_sub (b ! length z) (dot (take (length z) Li) z)]) [] L"

definition back_subst :: "npfloat list list \<Rightarrow> npfloat list \<Rightarrow> npfloat list" where
  "back_subst L y =
     foldr (\<lambda>i x. np_sub (y ! i) (dot (map (\<lambda>k. L ! k ! i) [Suc i..<length L]) x) # x)
           [0..<length L] []"

definition cho_solve :: "npfloat list list \<Rightarrow> npfloat list list \<Rightarrow> npfloat list list option" where
  "cho_solve L B =
     (if length B = length L
      then Some (mat_T (map (\<lambda>j. back_subst L (map2 np_div (forward_subst L (column B j)) (pivots L)))
                            [0..<ncols B]))
      else None)"

section \<open>Kalman filter (kalman\_filter: KalmanFilter)\<close>

text \<open>
  A \<open>KalmanFilter\<close> object holds constants only, so every instance (the tracker's, the
  class-level \<open>shared_kalman\<close>, a track's \<open>kalman_filter\<close>) is the same filter.
  A shape that NumPy would reject is \<open>None\<close>.
\<close>

definition ndim :: nat where
  "ndim = 4"

definition motion_mat :: "npfloat list list" where
  "motion_mat = map (\<lambda>i. map (\<lambda>j. if i = j \<or> (i < ndim \<and> j = i + ndim) then Fin 1 else Fin 0)
                               [0..<2 * ndim]) [0..<2 * ndim]"

definition update_mat :: "npfloat list list" where
  "update_mat = eye ndim (2 * ndim)"

definition std_weight_position :: npfloat where
  "std_weight_position = Fin (1 / 20)"

definition std_weight_velocity :: npfloat where
  "std_weight_velocity = Fin (1 / 160)"

text \<open>\<open>_create_std\<close> on one mean (a vector): \<open>mean[..., 3]\<close> is the height.\<close>

definition KalmanFilter_create_std :: "npfloat list \<Rightarrow> npfloat list option" where
  "KalmanFilter_create_std mean =
     (if length mean < 4 then None
      else let std_pos = np_mul std_weight_position (mean ! 3);
               std_vel = np_mul std_weight_velocity (mean ! 3);
               ones = Fin 1
           in Some [std_pos, std_pos, np_mul (Fin (1 / 100)) ones, std_pos,
                    std_vel, std_vel, np_mul (Fin (1 / 100000)) ones, std_vel])"

text \<open>
  \<open>_create_std\<close> on a batch of means (a \<open>K \<times> 8\<close> matrix): \<open>mean[..., 3]\<close> is the column
  of heights, every component is a vector of length \<open>K\<close>, and \<open>np.stack(..., axis=-1)\<close>
  puts the eight components side by side, one row per track.
\<close>

definition stack_last :: "'a list list \<Rightarrow> nat \<Rightarrow> 'a list list" where
  "stack_last comps k = map (\<lambda>i. map (\<lambda>c. c ! i) comps) [0..<k]"

definition KalmanFilter_create_std_batch :: "npfloat list list \<Rightarrow> npfloat list list option" where
  "KalmanFilter_create_std_batch mean =
     (if ncols mean < 4 then None
      else let std_pos = map (np_mul std_weight_position) (column mean 3);
               std_vel = map (np_mul std_weight_velocity) (column mean 3);
               ones = map (\<lambda>_. Fin 1) std_pos
           in Some (stack_last [std_pos, std_pos, map (np_mul (Fin (1 / 100))) ones, std_pos,
                                std_vel, std_vel, map (np_mul (Fin (1 / 100000))) ones, std_vel]
                               (length mean)))"

definition KalmanFilter_initiate :: "npfloat list \<Rightarrow> (npfloat list \<times> npfloat list list) option" where
  "KalmanFilter_initiate measurement =
     (let mean = measurement @ map (\<lambda>_. Fin 0) measurement
      in case KalmanFilter_create_std mean of
           None \<Rightarrow> None
         | Some std \<Rightarrow> Some (mean, diag (map square std)))"

definition KalmanFilter_predict :: "npfloat list \<Rightarrow> npfloat list list \<Rightarrow> (npfloat list \<times> npfloat list list) option" where
  "KalmanFilter_predict mean covariance =
     (if \<not> (is_vector 8 mean \<and> is_matrix 8 8 covariance) then None
      else case KalmanFilter_create_std mean of
           None \<Rightarrow> None
         | Some std \<Rightarrow>
             (let motion_cov = diag (map square std)
              in Some (vec_mat mean (mat_T motion_mat),
                       mat_add (mat_mul (mat_mul motion_mat covariance) (mat_T motion_mat))
                               motion_cov)))"

definition KalmanFilter_project :: "npfloat list \<Rightarrow> npfloat list list \<Rightarrow> (npfloat list \<times> npfloat list list) option" where
  "KalmanFilter_project mean covariance =
     (if \<not> (is_vector 8 mean \<and> is_matrix 8 8 covariance) then None
      else case KalmanFilter_create_std mean of
           None \<Rightarrow> None
         | Some std \<Rightarrow>
             (let innovation_cov = diag (map square (take ndim std))
              in Some (mat_vec update_mat mean,
                       mat_add (mat_mul (mat_mul update_mat covariance) (mat_T update_mat))
                               innovation_cov)))"

text \<open>
  The vectorised prediction. \<open>mean\<close> is \<open>K \<times> 8\<close>, \<open>covariance\<close> is \<open>K \<times> 8 \<times> 8\<close>; the
  matrix products broadcast over the first axis. For \<open>K = 0\<close> the list of diagonal
  matrices is an array of shape \<open>(0,)\<close>, which does not broadcast against \<open>(0, 8, 8)\<close>.
\<close>

definition KalmanFilter_multi_predict ::
  "npfloat list list \<Rightarrow> npfloat list list list \<Rightarrow> (npfloat list list \<times> npfloat list list list) option" where
  "KalmanFilter_multi_predict mean covariance =
     (if \<not> (mean \<noteq> [] \<and> is_matrix (length mean) 8 mean \<and> length covariance = length mean
             \<and> list_all (is_matrix 8 8) covariance) then None
      else case KalmanFilter_create_std_batch mean of
           None \<Rightarrow> None
         | Some std \<Rightarrow>
             (let motion_cov = map diag (map (map square) std)
              in Some (mat_mul mean (mat_T motion_mat),
                       map2 mat_add
                         (map (\<lambda>c. mat_mul (mat_mul motion_mat c) (mat_T motion_mat)) covariance)
                         motion_cov)))"

definition KalmanFilter_update ::
  "npfloat list \<Rightarrow> npfloat list list \<Rightarrow> npfloat list \<Rightarrow> (npfloat list \<times> npfloat list list) option" where
  "KalmanFilter_update mean covariance measurement =
     do {
       (projected_mean, projected_cov) \<leftarrow> KalmanFilter_project mean covariance;
       chol_factor \<leftarrow> cho_factor projected_cov;
       solved \<leftarrow> cho_solve chol_factor (mat_mul update_mat covariance);
       let kalman_gain = mat_T solved;
       if length measurement \<noteq> ndim then None
       else Some (vec_add mean (vec_mat (vec_sub measurement projected_mean) (mat_T kalman_gain)),
                  mat_sub covariance
                    (mat_mul (mat_mul kalman_gain projected_cov) (mat_T kalman_gain)))
     }"

section \<open>Tracks (basetrack: TrackState, BaseTrack; strack: STrack)\<close>

datatype TrackState = New | Tracked | Lost | Removed

text \<open>
  \<open>STrack.__init__\<close> does not call \<open>BaseTrack.__init__\<close>, so a fresh \<open>STrack\<close> has the
  attributes \<open>_tlwh\<close>, \<open>kalman_filter\<close>, \<open>mean\<close>, \<open>covariance\<close>, \<open>is_activated\<close>,
  \<open>score\<close> and \<open>tracklet_len\<close> only; \<open>track_id\<close>, \<open>state\<close>, \<open>frame_id\<close> and
  \<open>start_frame\<close> exist once \<open>activate\<close> has set them. A missing attribute is \<open>None\<close>
  and reading it fails (AttributeError). \<open>mean\<close> and \<open>covariance\<close> are Python's
  \<open>None\<close> until \<open>activate\<close>; \<open>kalman_filter\<close> is set together with \<open>mean\<close> and holds
  no data of its own, so it has no field.
\<close>

record STrack =
  p_tlwh :: "npfloat list"
  mean :: "npfloat list option"
  covariance :: "npfloat list list option"
  is_activated :: bool
  score :: npfloat
  tracklet_len :: int
  track_id :: "int option"
  state :: "TrackState option"
  frame_id :: "int option"
  start_frame :: "int option"

definition STrack_init :: "npfloat list \<Rightarrow> npfloat \<Rightarrow> STrack" where
  "STrack_init tlwh0 score0 =
     \<lparr>p_tlwh = tlwh0, mean = None, covariance = None, is_activated = False, score = score0,
      tracklet_len = 0, track_id = None, state = None, frame_id = None, start_frame = None\<rparr>"

definition end_frame :: "STrack \<Rightarrow> int option" where
  "end_frame t = frame_id t"

definition mark_lost :: "STrack \<Rightarrow> STrack" where
  "mark_lost t = t\<lparr>state := Some Lost\<rparr>"

definition mark_removed :: "STrack \<Rightarrow> STrack" where
  "mark_removed t = t\<lparr>state := Some Removed\<rparr>"

text \<open>
  The box conversions. The slices \<open>ret[:2]\<close> and \<open>ret[2:]\<close> combine only for a box of
  four numbers; the boxes of the tracker are always rows of four columns.
\<close>

fun tlwh_to_xyah :: "npfloat list \<Rightarrow> npfloat list option" where
  "tlwh_to_xyah [x, y, w, h] =
     Some [np_add x (np_div w (Fin 2)), np_add y (np_div h (Fin 2)), np_div w h, h]"
| "tlwh_to_xyah _ = None"

fun tlwh_to_tlbr :: "npfloat list \<Rightarrow> npfloat list option" where
  "tlwh_to_tlbr [x, y, w, h] = Some [x, y, np_add w x, np_add h y]"
| "tlwh_to_tlbr _ = None"

fun tlbr_to_tlwh :: "npfloat list \<Rightarrow> npfloat list option" where
  "tlbr_to_tlwh [x1, y1, x2, y2] = Some [x1, y1, np_sub x2 x1, np_sub y2 y1]"
| "tlbr_to_tlwh _ = None"

text \<open>The property \<open>tlwh\<close>: from the Kalman mean when there is one, else the initial box.\<close>

definition tlwh :: "STrack \<Rightarrow> npfloat list option" where
  "tlwh t =
     (case mean t of
        None \<Rightarrow> Some (p_tlwh t)
      | Some m \<Rightarrow>
          (case take 4 m of
             [cx, cy, a, h] \<Rightarrow>
               (let w = np_mul a h
                in Some [np_sub cx (np_div w (Fin 2)), np_sub cy (np_div h (Fin 2)), w, h])
           | _ \<Rightarrow> None))"

definition tlbr :: "STrack \<Rightarrow> npfloat list option" where
  "tlbr t = Option.bind (tlwh t) tlwh_to_tlbr"

text \<open>
  \<open>BaseTrack._count\<close> is a class attribute shared by every track of the process:
  the operations that call \<open>next_id\<close> take the counter and return it.
\<close>

definition next_id :: "int \<Rightarrow> int \<times> int" where
  "next_id count = (count + 1, count + 1)"

definition activate :: "STrack \<Rightarrow> int \<Rightarrow> int \<Rightarrow> (STrack \<times> int) option" where
  "activate t frame count =
     (let (new_id, count') = next_id count
      in do {
        xyah \<leftarrow> tlwh_to_xyah (p_tlwh t);
        (m, c) \<leftarrow> KalmanFilter_initiate xyah;
        Some (t\<lparr>track_id := Some new_id, mean := Some m, covariance := Some c,
                 tracklet_len := 0, state := Some Tracked, is_activated := (frame = 1),
                 frame_id := Some frame, start_frame := Some frame\<rparr>, count')
      })"

text \<open>
  \<open>_update_track\<close>. The track's own filter is \<open>None\<close> exactly when its mean is
  (before \<open>activate\<close>), where \<open>self.kalman_filter.update\<close> fails.
\<close>

definition update_track :: "STrack \<Rightarrow> STrack \<Rightarrow> int \<Rightarrow> bool \<Rightarrow> int \<Rightarrow> (STrack \<times> int) option" where
  "update_track t new_track frame new_id count =
     do {
       m \<leftarrow> mean t;
       c \<leftarrow> covariance t;
       box \<leftarrow> tlwh new_track;
       xyah \<leftarrow> tlwh_to_xyah box;
       (m', c') \<leftarrow> KalmanFilter_update m c xyah;
       let t' = t\<lparr>frame_id := Some frame, tracklet_len := tracklet_len t + 1,
                   mean := Some m', covariance := Some c',
                   state := Some Tracked, is_activated := True\<rparr>;
       let (t'', count') = (if new_id then (let (i, n) = next_id count in (t'\<lparr>track_id := Some i\<rparr>, n))
                            else (t', count));
       Some (t''\<lparr>score := score new_track\<rparr>, count')
     }"

definition re_activate :: "STrack \<Rightarrow> STrack \<Rightarrow> int \<Rightarrow> bool \<Rightarrow> int \<Rightarrow> (STrack \<times> int) option" where
  "re_activate t new_track frame new_id count = update_track t new_track frame new_id count"

definition STrack_update :: "STrack \<Rightarrow> STrack \<Rightarrow> int \<Rightarrow> int \<Rightarrow> (STrack \<times> int) option" where
  "STrack_update t new_track frame count = update_track t new_track frame False count"

text \<open>\<open>STrack.predict\<close>: the height velocity is zeroed unless the track is Tracked.\<close>

definition STrack_predict :: "STrack \<Rightarrow> STrack option" where
  "STrack_predict t =
     do {
       m \<leftarrow> mean t;
       c \<leftarrow> covariance t;
       st \<leftarrow> state t;
       mean_state \<leftarrow> (if st \<noteq> Tracked then (if 7 < length m then Some (m[7 := Fin 0]) else None)
                      else Some m);
       (m', c') \<leftarrow> KalmanFilter_predict mean_state c;
       Some (t\<lparr>mean := Some m', covariance := Some c'\<rparr>)
     }"

section \<open>Cost matrices (matching: ious, iou\_distance)\<close>

text \<open>
  A two-dimensional array keeps its shape when it has no entries: a cost matrix between
  three tracks and no detection has shape \<open>(3, 0)\<close>.
\<close>

record ndarray2 =
  shape0 :: nat
  shape1 :: nat
  entries :: "npfloat list list"

definition array_size :: "ndarray2 \<Rightarrow> nat" where
  "array_size A = shape0 A * shape1 A"

definition zeros :: "nat \<Rightarrow> nat \<Rightarrow> ndarray2" where
  "zeros n m = \<lparr>shape0 = n, shape1 = m, entries = replicate n (replicate m (Fin 0))\<rparr>"

definition ious :: "npfloat list list \<Rightarrow> npfloat list list \<Rightarrow> ndarray2 option" where
  "ious atlbrs btlbrs =
     (if atlbrs = [] \<or> btlbrs = [] then Some (zeros (length atlbrs) (length btlbrs))
      else map_option (\<lambda>m. \<lparr>shape0 = length atlbrs, shape1 = length btlbrs, entries = m\<rparr>)
             (box_iou_batch atlbrs btlbrs))"

text \<open>
  \<open>iou_distance\<close> on two lists of tracks. The boxes are extracted only when the first
  list is not empty; when it is empty the second list is passed on as it is and \<open>ious\<close>
  returns the empty matrix of shape \<open>(0, len(btracks))\<close> without looking at it.
\<close>

definition iou_distance :: "STrack list \<Rightarrow> STrack list \<Rightarrow> ndarray2 option" where
  "iou_distance atracks btracks =
     (let should_extract_tlbr = (0 < length atracks)
      in if should_extract_tlbr
         then do {
           atlbrs \<leftarrow> those (map tlbr atracks);
           btlbrs \<leftarrow> those (map tlbr btracks);
           ious_m \<leftarrow> ious atlbrs btlbrs;
           Some (ious_m\<lparr>entries := map (map (np_sub (Fin 1))) (entries ious_m)\<rparr>)
         }
         else Some \<lparr>shape0 = 0, shape1 = length btracks, entries = []\<rparr>)"

section \<open>Assignment kernel (matching: indices\_to\_matches, linear\_assignment)\<close>

text \<open>
  \<open>scipy.optimize.linear_sum_assignment\<close> is not part of the repository: it is a
  parameter \<open>lsa\<close>, which returns the row and the column indices of its assignment or
  fails (\<open>None\<close>: SciPy raises on a NaN entry). Thresholds are Python floats, taken finite.
\<close>

type_synonym solver = "npfloat list list \<Rightarrow> (nat list \<times> nat list) option"

definition in_bounds :: "ndarray2 \<Rightarrow> nat \<times> nat \<Rightarrow> bool" where
  "in_bounds C p = (fst p < shape0 C \<and> snd p < shape1 C)"

definition cost_at :: "ndarray2 \<Rightarrow> nat \<times> nat \<Rightarrow> npfloat" where
  "cost_at C p = entries C ! fst p ! snd p"

text \<open>
  \<open>indices_to_matches\<close>: the fancy index \<open>cost_matrix[rows, cols]\<close> raises IndexError on
  an index out of bounds; \<open>np.setdiff1d\<close> returns the sorted indices that no match uses.
\<close>

definition indices_to_matches ::
  "ndarray2 \<Rightarrow> (nat \<times> nat) list \<Rightarrow> real \<Rightarrow> ((nat \<times> nat) list \<times> nat list \<times> nat list) option" where
  "indices_to_matches cost_matrix indices thresh =
     (if \<not> list_all (in_bounds cost_matrix) indices then None
      else let matches = filter (\<lambda>p. np_le (cost_at cost_matrix p) (Fin thresh)) indices;
               unmatched_a = filter (\<lambda>i. i \<notin> set (map fst matches)) [0..<shape0 cost_matrix];
               unmatched_b = filter (\<lambda>j. j \<notin> set (map snd matches)) [0..<shape1 cost_matrix]
           in Some (matches, unmatched_a, unmatched_b))"

text \<open>The replacement of the costs above the threshold (\<open>np.where\<close>).\<close>

definition clip_costs :: "ndarray2 \<Rightarrow> real \<Rightarrow> ndarray2" where
  "clip_costs cost_matrix thresh =
     cost_matrix\<lparr>entries :=
       map (map (\<lambda>c. if np_gt c (Fin thresh) then Fin (thresh + 1 / 10000) else c))
           (entries cost_matrix)\<rparr>"

definition column_stack :: "nat list \<times> nat list \<Rightarrow> (nat \<times> nat) list option" where
  "column_stack rc = (if length (fst rc) = length (snd rc) then Some (zip (fst rc) (snd rc)) else None)"

definition linear_assignment ::
  "solver \<Rightarrow> ndarray2 \<Rightarrow> real \<Rightarrow> ((nat \<times> nat) list \<times> nat list \<times> nat list) option" where
  "linear_assignment lsa cost_matrix thresh =
     (if array_size cost_matrix = 0
      then Some ([], [0..<shape0 cost_matrix], [0..<shape1 cost_matrix])
      else do {
        let clipped = clip_costs cost_matrix thresh;
        row_col \<leftarrow> lsa (entries clipped);
        indices \<leftarrow> column_stack row_col;
        indices_to_matches clipped indices thresh
      })"

subsection \<open>What SciPy's solver returns\<close>

text \<open>
  A complete assignment of an \<open>n \<times> m\<close> matrix pairs \<open>min n m\<close> rows and columns, no row
  and no column twice. SciPy returns one of minimal total cost. The predicates below
  state this for a matrix of finite entries; they are the hypothesis on \<open>lsa\<close> of the
  theorems that need one.
\<close>

fun the_real :: "npfloat \<Rightarrow> real" where
  "the_real (Fin a) = a"
| "the_real _ = 0"

definition well_shaped :: "ndarray2 \<Rightarrow> bool" where
  "well_shaped C = is_matrix (shape0 C) (shape1 C) (entries C)"



definition total_cost :: "ndarray2 \<Rightarrow> (nat \<times> nat) list \<Rightarrow> real" where
  "total_cost C sol = sum_list (map (\<lambda>p. the_real (cost_at C p)) sol)"



text \<open>
  A reference solver for small matrices, by enumeration: every way to pick distinct
  columns for the rows (or distinct rows for the columns when there are more rows), and
  the first of least total cost. It fails on an entry that is not finite.
\<close>

fun injections :: "nat \<Rightarrow> nat list \<Rightarrow> nat list list" where
  "injections 0 cs = [[]]"
| "injections (Suc k) cs = concat (map (\<lambda>c. map ((#) c) (injections k (remove1 c cs))) cs)"

definition assignments :: "nat \<Rightarrow> nat \<Rightarrow> (nat \<times> nat) list list" where
  "assignments n m =
     (if n \<le> m then map (zip [0..<n]) (injections n [0..<m])
      else map (\<lambda>rs. sort_key fst (zip rs [0..<m])) (injections m [0..<n]))"

fun arg_min_cost :: "ndarray2 \<Rightarrow> (nat \<times> nat) list \<Rightarrow> (nat \<times> nat) list list \<Rightarrow> (nat \<times> nat) list" where
  "arg_min_cost C best [] = best"
| "arg_min_cost C best (s # ss) =
     arg_min_cost C (if total_cost C s < total_cost C best then s else best) ss"

definition enumerate_lsa :: solver where
  "enumerate_lsa M =
     (let C = \<lparr>shape0 = length M, shape1 = ncols M, entries = M\<rparr>
      in if \<not> list_all (list_all isfinite) M then None
         else case assignments (shape0 C) (shape1 C) of
                [] \<Rightarrow> None
              | s # ss \<Rightarrow> (let best = arg_min_cost C s ss in Some (map fst best, map snd best)))"


section \<open>Track objects in memory\<close>

text \<open>
  Tracks are objects that several lists refer to and that the tracker mutates in place:
  the lists hold references (positions in \<open>heap\<close>), and \<open>BaseTrack._count\<close> is the
  process-wide counter behind \<open>next_id\<close>. Dereferencing a position that was never
  allocated fails.
\<close>

type_synonym ref = nat

record world =
  heap :: "STrack list"
  BaseTrack_count :: int

definition deref :: "world \<Rightarrow> ref \<Rightarrow> STrack option" where
  "deref w r = (if r < length (heap w) then Some (heap w ! r) else None)"

definition store :: "world \<Rightarrow> ref \<Rightarrow> STrack \<Rightarrow> world" where
  "store w r t = w\<lparr>heap := (heap w)[r := t]\<rparr>"

definition alloc :: "world \<Rightarrow> STrack \<Rightarrow> world \<times> ref" where
  "alloc w t = (w\<lparr>heap := heap w @ [t]\<rparr>, length (heap w))"

definition derefs :: "world \<Rightarrow> ref list \<Rightarrow> STrack list option" where
  "derefs w rs = those (map (deref w) rs)"

definition nth_opt :: "'a list \<Rightarrow> nat \<Rightarrow> 'a option" where
  "nth_opt xs i = (if i < length xs then Some (xs ! i) else None)"

fun filterM :: "('a \<Rightarrow> bool option) \<Rightarrow> 'a list \<Rightarrow> 'a list option" where
  "filterM p [] = Some []"
| "filterM p (x # xs) =
     do { b \<leftarrow> p x; ys \<leftarrow> filterM p xs; Some (if b then x # ys else ys) }"

section \<open>Track-list helpers (byte\_tracker: joint\_stracks, sub\_stracks)\<close>

text \<open>
  A Python dictionary keeps its keys in the order of their first insertion and the value
  of the last one.
\<close>

fun dict_set :: "('k \<times> 'v) list \<Rightarrow> 'k \<times> 'v \<Rightarrow> ('k \<times> 'v) list" where
  "dict_set [] kv = [kv]"
| "dict_set (p # ps) kv = (if fst p = fst kv then kv # ps else p # dict_set ps kv)"

definition track_id_of :: "world \<Rightarrow> ref \<Rightarrow> int option" where
  "track_id_of w r = do { t \<leftarrow> deref w r; track_id t }"

definition joint_stracks :: "world \<Rightarrow> ref list \<Rightarrow> ref list \<Rightarrow> ref list option" where
  "joint_stracks w track_list_a track_list_b =
     do {
       items \<leftarrow> those (map (\<lambda>r. map_option (\<lambda>i. (i, r)) (track_id_of w r))
                             (track_list_a @ track_list_b));
       let unique_tracks = foldl dict_set [] items;
       Some (map snd unique_tracks)
     }"

definition sub_stracks :: "world \<Rightarrow> ref list \<Rightarrow> ref list \<Rightarrow> ref list option" where
  "sub_stracks w track_list_a track_list_b =
     do {
       track_ids_b \<leftarrow> those (map (track_id_of w) track_list_b);
       filterM (\<lambda>r. map_option (\<lambda>i. i \<notin> set track_ids_b) (track_id_of w r)) track_list_a
     }"

section \<open>De-duplication (byte\_tracker: remove\_duplicate\_stracks)\<close>

text \<open>\<open>np.where(pairwise_distance < 0.15)\<close>: the index pairs in row-major order.\<close>

definition where_less :: "ndarray2 \<Rightarrow> real \<Rightarrow> (nat \<times> nat) list" where
  "where_less A bound =
     concat (map (\<lambda>i. map (\<lambda>j. (i, j))
                          (filter (\<lambda>j. np_lt (cost_at A (i, j)) (Fin bound)) [0..<shape1 A]))
                 [0..<shape0 A])"

text \<open>The age that the loop computes for a track: \<open>frame_id - start_frame\<close>.\<close>

definition track_time :: "STrack \<Rightarrow> int option" where
  "track_time t = do { f \<leftarrow> frame_id t; s \<leftarrow> start_frame t; Some (f - s) }"

fun duplicate_sets ::
  "STrack list \<Rightarrow> STrack list \<Rightarrow> (nat \<times> nat) list \<Rightarrow> nat set \<times> nat set \<Rightarrow> (nat set \<times> nat set) option" where
  "duplicate_sets s_tracks_a s_tracks_b [] dups = Some dups"
| "duplicate_sets s_tracks_a s_tracks_b ((track_a_index, track_b_index) # pairs) dups =
     do {
       a \<leftarrow> nth_opt s_tracks_a track_a_index;
       b \<leftarrow> nth_opt s_tracks_b track_b_index;
       time_a \<leftarrow> track_time a;
       time_b \<leftarrow> track_time b;
       duplicate_sets s_tracks_a s_tracks_b pairs
         (if time_a > time_b then (fst dups, insert track_b_index (snd dups))
          else (insert track_a_index (fst dups), snd dups))
     }"

definition keep_indices :: "'a list \<Rightarrow> nat set \<Rightarrow> 'a list" where
  "keep_indices xs dups = map snd (filter (\<lambda>p. fst p \<notin> dups) (enumerate 0 xs))"

definition remove_duplicate_stracks ::
  "world \<Rightarrow> ref list \<Rightarrow> ref list \<Rightarrow> (ref list \<times> ref list) option" where
  "remove_duplicate_stracks w s_tracks_a s_tracks_b =
     do {
       tracks_a \<leftarrow> derefs w s_tracks_a;
       tracks_b \<leftarrow> derefs w s_tracks_b;
       pairwise_distance \<leftarrow> iou_distance tracks_a tracks_b;
       let pairs = where_less pairwise_distance (15 / 100);
       (duplicates_a, duplicates_b) \<leftarrow> duplicate_sets tracks_a tracks_b pairs ({}, {});
       Some (keep_indices s_tracks_a duplicates_a, keep_indices s_tracks_b duplicates_b)
     }"

section \<open>The tracker (byte\_tracker: BYTETracker)\<close>

record BYTETracker =
  track_thresh :: real
  match_thresh :: real
  tracker_frame_id :: int
  det_thresh :: real
  buffer_size :: int
  max_time_lost :: int
  tracked_stracks :: "ref list"
  lost_stracks :: "ref list"
  removed_stracks :: "ref list"

text \<open>Python's \<open>int\<close> of a float truncates towards zero.\<close>

definition py_int :: "real \<Rightarrow> int" where
  "py_int x = (if 0 \<le> x then \<lfloor>x\<rfloor> else \<lceil>x\<rceil>)"

text \<open>
  \<open>BYTETracker.__init__\<close>. The thresholds are floats and \<open>track_buffer\<close>, \<open>frame_rate\<close>
  are integers, as annotated. The body has no check and no \<open>raise\<close>: every path returns
  the tracker, and resets the class counter.
\<close>

definition BYTETracker_init ::
  "real \<Rightarrow> int \<Rightarrow> real \<Rightarrow> int \<Rightarrow> world \<Rightarrow> (BYTETracker \<times> world) option" where
  "BYTETracker_init track_thresh0 track_buffer match_thresh0 frame_rate w =
     (let buffer = py_int (real_of_int frame_rate / 30 * real_of_int track_buffer)
      in Some (\<lparr>track_thresh = track_thresh0, match_thresh = match_thresh0,
                 tracker_frame_id = 0, det_thresh = track_thresh0 + 1 / 10,
                 buffer_size = buffer, max_time_lost = buffer,
                 tracked_stracks = [], lost_stracks = [], removed_stracks = []\<rparr>,
               w\<lparr>BaseTrack_count := 0\<rparr>))"

text \<open>
  \<open>_process_output\<close>: with five columns the scores are column 4, otherwise the product
  of columns 4 and 5 (which fewer than six columns do not have). An array is rectangular;
  a ragged list of rows is rejected. Whether the input is a NumPy array or a torch
  tensor is not modelled.
\<close>

definition process_output :: "ndarray2 \<Rightarrow> (npfloat list \<times> npfloat list list) option" where
  "process_output output_results =
     (if \<not> well_shaped output_results then None
      else if shape1 output_results = 5
        then Some (column (entries output_results) 4, map (take 4) (entries output_results))
      else if 6 \<le> shape1 output_results
        then Some (map2 np_mul (column (entries output_results) 4) (column (entries output_results) 5),
                   map (take 4) (entries output_results))
      else None)"

text \<open>
  \<open>_scale_bboxes\<close>: the two quotients are Python floats, so a zero height or width of
  the image raises ZeroDivisionError; the boxes are then divided as a NumPy array.
\<close>

definition scale_bboxes :: "real \<times> real \<Rightarrow> real \<times> real \<Rightarrow> npfloat list list \<Rightarrow> npfloat list list option" where
  "scale_bboxes img_info img_size bboxes =
     (let img_h = fst img_info; img_w = snd img_info
      in if img_h = 0 \<or> img_w = 0 then None
         else let scale = min (fst img_size / img_h) (snd img_size / img_w)
              in Some (map (map (\<lambda>x. np_div x (Fin scale))) bboxes))"

text \<open>Boolean-mask indexing \<open>a[mask]\<close>, and the two masks of \<open>update\<close>.\<close>

definition mask_select :: "bool list \<Rightarrow> 'a list \<Rightarrow> 'a list" where
  "mask_select keep xs = map snd (filter fst (zip keep xs))"

definition first_mask :: "real \<Rightarrow> npfloat list \<Rightarrow> bool list" where
  "first_mask thresh scores = map (\<lambda>s. np_gt s (Fin thresh)) scores"

definition second_mask :: "real \<Rightarrow> npfloat list \<Rightarrow> bool list" where
  "second_mask thresh scores = map (\<lambda>s. np_gt s (Fin (1 / 10)) \<and> np_lt s (Fin thresh)) scores"

text \<open>\<open>_get_detections\<close>: one new \<open>STrack\<close> object per kept row.\<close>

fun get_detections :: "world \<Rightarrow> (npfloat list \<times> npfloat) list \<Rightarrow> (world \<times> ref list) option" where
  "get_detections w [] = Some (w, [])"
| "get_detections w ((box, s) # rest) =
     do {
       box_tlwh \<leftarrow> tlbr_to_tlwh box;
       let (w1, r) = alloc w (STrack_init box_tlwh s);
       (w2, rs) \<leftarrow> get_detections w1 rest;
       Some (w2, r # rs)
     }"

text \<open>\<open>_update_tracked_stracks\<close>: the unconfirmed and the confirmed tracks.\<close>

definition update_tracked_stracks :: "world \<Rightarrow> BYTETracker \<Rightarrow> (ref list \<times> ref list) option" where
  "update_tracked_stracks w tr =
     do {
       unconfirmed \<leftarrow> filterM (\<lambda>r. map_option (\<lambda>t. \<not> is_activated t) (deref w r)) (tracked_stracks tr);
       tracked \<leftarrow> filterM (\<lambda>r. map_option is_activated (deref w r)) (tracked_stracks tr);
       Some (unconfirmed, tracked)
     }"

text \<open>\<open>STrack.multi_predict\<close> on a list of tracks, with the shared filter.\<close>

definition modify :: "world \<Rightarrow> ref \<Rightarrow> (STrack \<Rightarrow> STrack) \<Rightarrow> world" where
  "modify w r f = (case deref w r of None \<Rightarrow> w | Some t \<Rightarrow> store w r (f t))"

fun assign_predictions :: "world \<Rightarrow> (ref \<times> npfloat list \<times> npfloat list list) list \<Rightarrow> world" where
  "assign_predictions w [] = w"
| "assign_predictions w ((r, m, c) # rest) =
     assign_predictions (modify w r (\<lambda>t. t\<lparr>mean := Some m, covariance := Some c\<rparr>)) rest"

definition predicted_state :: "STrack \<Rightarrow> (npfloat list \<times> npfloat list list) option" where
  "predicted_state st =
     do {
       m \<leftarrow> mean st;
       c \<leftarrow> covariance st;
       s \<leftarrow> state st;
       m0 \<leftarrow> (if s \<noteq> Tracked then (if 7 < length m then Some (m[7 := Fin 0]) else None)
              else Some m);
       Some (m0, c)
     }"

definition STrack_multi_predict :: "world \<Rightarrow> ref list \<Rightarrow> world option" where
  "STrack_multi_predict w stracks =
     (if stracks = [] then Some w
      else do {
        tracks \<leftarrow> derefs w stracks;
        multi_states \<leftarrow> those (map predicted_state tracks);
        (multi_means, multi_covariances) \<leftarrow>
            KalmanFilter_multi_predict (map fst multi_states) (map snd multi_states);
        Some (assign_predictions w (zip stracks (zip multi_means multi_covariances)))
      })"

definition match_tracks_to_detections ::
  "solver \<Rightarrow> world \<Rightarrow> ref list \<Rightarrow> ref list \<Rightarrow> real \<Rightarrow> ((nat \<times> nat) list \<times> nat list \<times> nat list) option" where
  "match_tracks_to_detections lsa w stracks detections thresh =
     do {
       tracks \<leftarrow> derefs w stracks;
       dets \<leftarrow> derefs w detections;
       dists \<leftarrow> iou_distance tracks dets;
       linear_assignment lsa dists thresh
     }"

text \<open>The effect of \<open>track.update(det, frame_id)\<close> or \<open>re_activate\<close> on the world.\<close>

definition apply_update :: "world \<Rightarrow> ref \<Rightarrow> ref \<Rightarrow> int \<Rightarrow> bool \<Rightarrow> world option" where
  "apply_update w track det frame reactivate =
     do {
       t \<leftarrow> deref w track;
       d \<leftarrow> deref w det;
       (t', c') \<leftarrow> (if reactivate then re_activate t d frame False (BaseTrack_count w)
                    else STrack_update t d frame (BaseTrack_count w));
       Some (store (w\<lparr>BaseTrack_count := c'\<rparr>) track t')
     }"

fun update_tracks ::
  "world \<Rightarrow> int \<Rightarrow> ref list \<Rightarrow> ref list \<Rightarrow> (nat \<times> nat) list \<Rightarrow> ref list \<Rightarrow> ref list
     \<Rightarrow> (world \<times> ref list \<times> ref list) option" where
  "update_tracks w frame stracks detections [] refind_stracks activated_stracks =
     Some (w, refind_stracks, activated_stracks)"
| "update_tracks w frame stracks detections ((itracked, idet) # matches) refind_stracks activated_stracks =
     do {
       track \<leftarrow> nth_opt stracks itracked;
       det \<leftarrow> nth_opt detections idet;
       t \<leftarrow> deref w track;
       st \<leftarrow> state t;
       if st = Tracked
       then do {
         w' \<leftarrow> apply_update w track det frame False;
         update_tracks w' frame stracks detections matches refind_stracks (activated_stracks @ [track])
       }
       else do {
         w' \<leftarrow> apply_update w track det frame True;
         update_tracks w' frame stracks detections matches (refind_stracks @ [track]) activated_stracks
       }
     }"

text \<open>The tracks of the pool left unmatched that are still Tracked.\<close>

fun select_tracked :: "world \<Rightarrow> ref list \<Rightarrow> nat list \<Rightarrow> ref list option" where
  "select_tracked w strack_pool [] = Some []"
| "select_tracked w strack_pool (i # u_track) =
     do {
       track \<leftarrow> nth_opt strack_pool i;
       t \<leftarrow> deref w track;
       st \<leftarrow> state t;
       rest \<leftarrow> select_tracked w strack_pool u_track;
       Some (if st = Tracked then track # rest else rest)
     }"

fun mark_lost_unmatched :: "world \<Rightarrow> ref list \<Rightarrow> nat list \<Rightarrow> ref list \<Rightarrow> (world \<times> ref list) option" where
  "mark_lost_unmatched w r_tracked_stracks [] lost = Some (w, lost)"
| "mark_lost_unmatched w r_tracked_stracks (it # u_track) lost =
     do {
       track \<leftarrow> nth_opt r_tracked_stracks it;
       t \<leftarrow> deref w track;
       st \<leftarrow> state t;
       if st \<noteq> Lost
       then mark_lost_unmatched (store w track (mark_lost t)) r_tracked_stracks u_track (lost @ [track])
       else mark_lost_unmatched w r_tracked_stracks u_track lost
     }"

fun update_unconfirmed ::
  "world \<Rightarrow> int \<Rightarrow> ref list \<Rightarrow> ref list \<Rightarrow> (nat \<times> nat) list \<Rightarrow> ref list \<Rightarrow> (world \<times> ref list) option" where
  "update_unconfirmed w frame unconfirmed detections [] activated_stracks = Some (w, activated_stracks)"
| "update_unconfirmed w frame unconfirmed detections ((itracked, idet) # matches) activated_stracks =
     do {
       track \<leftarrow> nth_opt unconfirmed itracked;
       det \<leftarrow> nth_opt detections idet;
       w' \<leftarrow> apply_update w track det frame False;
       update_unconfirmed w' frame unconfirmed detections matches (activated_stracks @ [track])
     }"

fun remove_unconfirmed :: "world \<Rightarrow> ref list \<Rightarrow> nat list \<Rightarrow> ref list \<Rightarrow> (world \<times> ref list) option" where
  "remove_unconfirmed w unconfirmed [] removed = Some (w, removed)"
| "remove_unconfirmed w unconfirmed (it # u_unconfirmed) removed =
     do {
       track \<leftarrow> nth_opt unconfirmed it;
       t \<leftarrow> deref w track;
       remove_unconfirmed (store w track (mark_removed t)) unconfirmed u_unconfirmed (removed @ [track])
     }"

fun init_new_tracks ::
  "world \<Rightarrow> int \<Rightarrow> real \<Rightarrow> ref list \<Rightarrow> nat list \<Rightarrow> ref list \<Rightarrow> (world \<times> ref list) option" where
  "init_new_tracks w frame thresh detections [] activated_stracks = Some (w, activated_stracks)"
| "init_new_tracks w frame thresh detections (inew # u_detection) activated_stracks =
     do {
       track \<leftarrow> nth_opt detections inew;
       t \<leftarrow> deref w track;
       if np_ge (score t) (Fin thresh)
       then do {
         (t', c') \<leftarrow> activate t frame (BaseTrack_count w);
         init_new_tracks (store (w\<lparr>BaseTrack_count := c'\<rparr>) track t') frame thresh detections
           u_detection (activated_stracks @ [track])
       }
       else init_new_tracks w frame thresh detections u_detection activated_stracks
     }"

text \<open>A lost track has expired when \<open>frame_id - track.end_frame > max_time_lost\<close>.\<close>

definition expired :: "int \<Rightarrow> int \<Rightarrow> STrack \<Rightarrow> bool option" where
  "expired frame max_lost t = map_option (\<lambda>e. frame - e > max_lost) (end_frame t)"

fun remove_expired :: "world \<Rightarrow> int \<Rightarrow> int \<Rightarrow> ref list \<Rightarrow> ref list \<Rightarrow> (world \<times> ref list) option" where
  "remove_expired w frame max_lost [] removed = Some (w, removed)"
| "remove_expired w frame max_lost (track # rest) removed =
     do {
       t \<leftarrow> deref w track;
       e \<leftarrow> expired frame max_lost t;
       if e
       then remove_expired (store w track (mark_removed t)) frame max_lost rest (removed @ [track])
       else remove_expired w frame max_lost rest removed
     }"

text \<open>\<open>BYTETracker.update\<close>, statement by statement.\<close>

definition BYTETracker_update ::
  "solver \<Rightarrow> world \<Rightarrow> BYTETracker \<Rightarrow> ndarray2 \<Rightarrow> real \<times> real \<Rightarrow> real \<times> real
     \<Rightarrow> (world \<times> BYTETracker \<times> ref list) option" where
  "BYTETracker_update lsa w0 tr output_results img_info img_size =
     do {
       let frame = tracker_frame_id tr + 1;
       (scores, bboxes0) \<leftarrow> process_output output_results;
       bboxes \<leftarrow> scale_bboxes img_info img_size bboxes0;
       let first = first_mask (track_thresh tr) scores;
       (w1, detections) \<leftarrow> get_detections w0 (zip (mask_select first bboxes) (mask_select first scores));
       let second = second_mask (track_thresh tr) scores;
       (w2, detections_second) \<leftarrow>
           get_detections w1 (zip (mask_select second bboxes) (mask_select second scores));
       (unconfirmed, tracked) \<leftarrow> update_tracked_stracks w2 tr;
       strack_pool \<leftarrow> joint_stracks w2 tracked (lost_stracks tr);
       w3 \<leftarrow> STrack_multi_predict w2 strack_pool;
       (matches, u_track, u_detection) \<leftarrow>
           match_tracks_to_detections lsa w3 strack_pool detections (match_thresh tr);
       (w4, refind1, activated1) \<leftarrow> update_tracks w3 frame strack_pool detections matches [] [];
       r_tracked_stracks \<leftarrow> select_tracked w4 strack_pool u_track;
       (matches2, u_track2, u_detection_second) \<leftarrow>
           match_tracks_to_detections lsa w4 r_tracked_stracks detections_second (1 / 2);
       (w5, refind_stracks, activated2) \<leftarrow>
           update_tracks w4 frame r_tracked_stracks detections_second matches2 refind1 activated1;
       (w6, lost) \<leftarrow> mark_lost_unmatched w5 r_tracked_stracks u_track2 [];
       detections_left \<leftarrow> those (map (nth_opt detections) u_detection);
       (matches3, u_unconfirmed, u_detection3) \<leftarrow>
           match_tracks_to_detections lsa w6 unconfirmed detections_left (7 / 10);
       (w7, activated3) \<leftarrow> update_unconfirmed w6 frame unconfirmed detections_left matches3 activated2;
       (w8, removed1) \<leftarrow> remove_unconfirmed w7 unconfirmed u_unconfirmed [];
       (w9, activated_stracks) \<leftarrow>
           init_new_tracks w8 frame (det_thresh tr) detections_left u_detection3 activated3;
       (w10, removed2) \<leftarrow> remove_expired w9 frame (max_time_lost tr) (lost_stracks tr) removed1;
       expired_again \<leftarrow>
           filterM (\<lambda>r. Option.bind (deref w10 r) (expired frame (max_time_lost tr))) (lost_stracks tr);
       let removed = removed2 @ expired_again;
       tracked1 \<leftarrow> filterM (\<lambda>r. Option.bind (deref w10 r)
                                     (\<lambda>t. map_option (\<lambda>s. s = Tracked) (state t)))
                           (tracked_stracks tr);
       tracked2 \<leftarrow> joint_stracks w10 tracked1 activated_stracks;
       tracked3 \<leftarrow> joint_stracks w10 tracked2 refind_stracks;
       lost1 \<leftarrow> sub_stracks w10 (lost_stracks tr) tracked3;
       let lost2 = lost1 @ lost;
       lost3 \<leftarrow> sub_stracks w10 lost2 (removed_stracks tr);
       let removed_all = removed_stracks tr @ removed;
       (tracked4, lost4) \<leftarrow> remove_duplicate_stracks w10 tracked3 lost3;
       output \<leftarrow> filterM (\<lambda>r. map_option is_activated (deref w10 r)) tracked4;
       Some (w10,
             tr\<lparr>tracker_frame_id := frame, tracked_stracks := tracked4, lost_stracks := lost4,
                removed_stracks := removed_all\<rparr>,
             output)
     }"

section \<open>Notions used to state the properties\<close>






definition holds_at :: "(STrack \<Rightarrow> bool) \<Rightarrow> world \<Rightarrow> ref \<Rightarrow> bool" where
  "holds_at P w r = (case deref w r of None \<Rightarrow> False | Some t \<Rightarrow> P t)"

definition preserves :: "(STrack \<Rightarrow> bool) \<Rightarrow> world \<Rightarrow> world \<Rightarrow> bool" where
  "preserves P w w' = (\<forall>r. holds_at P w r \<longrightarrow> holds_at P w' r)"


section \<open>Concrete inputs\<close>



text \<open>
  A stream of frames for a tracker: \<open>run_updates\<close> calls \<open>update\<close> on each frame in
  turn, with the image and the detector at the same size. \<open>observe\<close> reads the three
  lists of a tracker with the state and the activation flag of every track in them.
\<close>

fun run_updates ::
  "solver \<Rightarrow> (world \<times> BYTETracker) option \<Rightarrow> ndarray2 list \<Rightarrow> (world \<times> BYTETracker) option" where
  "run_updates lsa s [] = s"
| "run_updates lsa s (frame # frames) =
     run_updates lsa
       (do {
          (w, tr) \<leftarrow> s;
          (w', tr', out) \<leftarrow> BYTETracker_update lsa w tr frame (720, 1280) (720, 1280);
          Some (w', tr')
        }) frames"

definition new_tracker :: "real \<Rightarrow> int \<Rightarrow> real \<Rightarrow> int \<Rightarrow> (world \<times> BYTETracker) option" where
  "new_tracker track_thresh0 track_buffer match_thresh0 frame_rate =
     do {
       (tr, w) \<leftarrow> BYTETracker_init track_thresh0 track_buffer match_thresh0 frame_rate
                     \<lparr>heap = [], BaseTrack_count = 0\<rparr>;
       Some (w, tr)
     }"

definition view :: "world \<Rightarrow> ref list \<Rightarrow> (ref \<times> TrackState option \<times> bool) list option" where
  "view w rs = those (map (\<lambda>r. map_option (\<lambda>t. (r, state t, is_activated t)) (deref w r)) rs)"

definition observe ::
  "(world \<times> BYTETracker) option \<Rightarrow>
   (int \<times> (ref \<times> TrackState option \<times> bool) list \<times> (ref \<times> TrackState option \<times> bool) list
        \<times> (ref \<times> TrackState option \<times> bool) list) option" where
  "observe s =
     do {
       (w, tr) \<leftarrow> s;
       tracked \<leftarrow> view w (tracked_stracks tr);
       lost \<leftarrow> view w (lost_stracks tr);
       removed \<leftarrow> view w (removed_stracks tr);
       Some (tracker_frame_id tr, tracked, lost, removed)
     }"

definition no_detection :: ndarray2 where
  "no_detection = \<lparr>shape0 = 0, shape1 = 5, entries = []\<rparr>"

definition one_detection :: ndarray2 where
  "one_detection =
     \<lparr>shape0 = 1, shape1 = 5, entries = [[Fin 100, Fin 100, Fin 200, Fin 300, Fin (9 / 10)]]\<rparr>"




text \<open>
  The states of a tracker with \<open>track_buffer = 1\<close> (so \<open>max_time_lost = 1\<close>) after a
  first frame with one detection and after a second frame with none.
\<close>

definition tracker_at :: "int \<Rightarrow> ref list \<Rightarrow> ref list \<Rightarrow> ref list \<Rightarrow> BYTETracker" where
  "tracker_at frame tracked lost removed =
     \<lparr>track_thresh = 1 / 4, match_thresh = 4 / 5, tracker_frame_id = frame, det_thresh = 7 / 20,
      buffer_size = 1, max_time_lost = 1,
      tracked_stracks = tracked, lost_stracks = lost, removed_stracks = removed\<rparr>"

definition track_with :: "npfloat list list \<Rightarrow> TrackState \<Rightarrow> STrack" where
  "track_with cov st =
     \<lparr>p_tlwh = [Fin 100, Fin 100, Fin 100, Fin 200],
      mean = Some [Fin 150, Fin 200, Fin (1 / 2), Fin 200, Fin 0, Fin 0, Fin 0, Fin 0],
      covariance = Some cov, is_activated = True, score = Fin (9 / 10), tracklet_len = 0,
      track_id = Some 1, state = Some st, frame_id = Some 1, start_frame = Some 1\<rparr>"

definition covariance_1 :: "npfloat list list" where
  "covariance_1 =
     diag [Fin 100, Fin 100, Fin (1 / 10000), Fin 100,
           Fin (25 / 16), Fin (25 / 16), Fin (1 / 10000000000), Fin (25 / 16)]"

definition covariance_2 :: "npfloat list list" where
  "covariance_2 =
     [[Fin (3225 / 16), Fin 0, Fin 0, Fin 0, Fin (25 / 16), Fin 0, Fin 0, Fin 0],
      [Fin 0, Fin (3225 / 16), Fin 0, Fin 0, Fin 0, Fin (25 / 16), Fin 0, Fin 0],
      [Fin 0, Fin 0, Fin (2000001 / 10000000000), Fin 0, Fin 0, Fin 0, Fin (1 / 10000000000), Fin 0],
      [Fin 0, Fin 0, Fin 0, Fin (3225 / 16), Fin 0, Fin 0, Fin 0, Fin (25 / 16)],
      [Fin (25 / 16), Fin 0, Fin 0, Fin 0, Fin (25 / 8), Fin 0, Fin 0, Fin 0],
      [Fin 0, Fin (25 / 16), Fin 0, Fin 0, Fin 0, Fin (25 / 8), Fin 0, Fin 0],
      [Fin 0, Fin 0, Fin (1 / 10000000000), Fin 0, Fin 0, Fin 0, Fin (1 / 5000000000), Fin 0],
      [Fin 0, Fin 0, Fin 0, Fin (25 / 16), Fin 0, Fin 0, Fin 0, Fin (25 / 8)]]"

definition after_frame_1 :: "(world \<times> BYTETracker) option" where
  "after_frame_1 =
     Some (\<lparr>heap = [track_with covariance_1 Tracked], BaseTrack_count = 1\<rparr>, tracker_at 1 [0] [] [])"

definition after_frame_2 :: "(world \<times> BYTETracker) option" where
  "after_frame_2 =
     Some (\<lparr>heap = [track_with covariance_2 Lost], BaseTrack_count = 1\<rparr>, tracker_at 2 [] [0] [])"

section \<open>Geometry kernel: boxes of zero or negative area\<close>













section \<open>Kalman filter: the vectorised prediction\<close>

lemma create_std_Some:
  "4 \<le> length m \<Longrightarrow>
   KalmanFilter_create_std m =
     Some [np_mul std_weight_position (m ! 3), np_mul std_weight_position (m ! 3),
           np_mul (Fin (1 / 100)) (Fin 1), np_mul std_weight_position (m ! 3),
           np_mul std_weight_velocity (m ! 3), np_mul std_weight_velocity (m ! 3),
           np_mul (Fin (1 / 100000)) (Fin 1), np_mul std_weight_velocity (m ! 3)]"
  by (simp add: KalmanFilter_create_std_def Let_def)

lemma is_matrix_rows: "is_matrix n m A \<Longrightarrow> r \<in> set A \<Longrightarrow> length r = m"
  by (simp add: is_matrix_def list_all_iff)

lemma ncols_matrix: "is_matrix n m A \<Longrightarrow> A \<noteq> [] \<Longrightarrow> ncols A = m"
  by (cases A) (simp_all add: ncols_def is_matrix_def)

text \<open>Row \<open>i\<close> of the stacked batch is the standard deviation vector of mean \<open>i\<close>.\<close>

lemma create_std_batch_rows:
  assumes "means \<noteq> []" and "is_matrix (length means) 8 means"
  shows "KalmanFilter_create_std_batch means =
           Some (map (\<lambda>m. the (KalmanFilter_create_std m)) means)"
proof -
  have nc: "ncols means = 8"
    using assms by (simp add: ncols_matrix)
  have len: "\<And>m. m \<in> set means \<Longrightarrow> 4 \<le> length m"
    using assms(2) by (auto dest: is_matrix_rows)
  have "map (\<lambda>m. the (KalmanFilter_create_std m)) means =
        map (\<lambda>m. the (KalmanFilter_create_std m)) (map ((!) means) [0..<length means])"
    by (simp only: map_nth)
  also have "\<dots> = map (\<lambda>i. the (KalmanFilter_create_std (means ! i))) [0..<length means]"
    by (simp only: map_map comp_def)
  also have "\<dots> = stack_last
       [map (np_mul std_weight_position) (column means 3),
        map (np_mul std_weight_position) (column means 3),
        map (np_mul (Fin (1 / 100))) (map (\<lambda>_. Fin 1) (map (np_mul std_weight_position) (column means 3))),
        map (np_mul std_weight_position) (column means 3),
        map (np_mul std_weight_velocity) (column means 3),
        map (np_mul std_weight_velocity) (column means 3),
        map (np_mul (Fin (1 / 100000))) (map (\<lambda>_. Fin 1) (map (np_mul std_weight_position) (column means 3))),
        map (np_mul std_weight_velocity) (column means 3)]
       (length means)"
    unfolding stack_last_def
    by (rule map_cong) (simp_all add: create_std_Some len column_def)
  finally have rows: "map (\<lambda>m. the (KalmanFilter_create_std m)) means = stack_last
       [map (np_mul std_weight_position) (column means 3),
        map (np_mul std_weight_position) (column means 3),
        map (np_mul (Fin (1 / 100))) (map (\<lambda>_. Fin 1) (map (np_mul std_weight_position) (column means 3))),
        map (np_mul std_weight_position) (column means 3),
        map (np_mul std_weight_velocity) (column means 3),
        map (np_mul std_weight_velocity) (column means 3),
        map (np_mul (Fin (1 / 100000))) (map (\<lambda>_. Fin 1) (map (np_mul std_weight_position) (column means 3))),
        map (np_mul std_weight_velocity) (column means 3)]
       (length means)" .
  show ?thesis
    unfolding KalmanFilter_create_std_batch_def Let_def rows by (simp add: nc)
qed

lemma predict_Some:
  assumes "is_vector 8 m" and "is_matrix 8 8 c"
  shows "KalmanFilter_predict m c =
           Some (vec_mat m (mat_T motion_mat),
                 mat_add (mat_mul (mat_mul motion_mat c) (mat_T motion_mat))
                         (diag (map square (the (KalmanFilter_create_std m)))))"
proof -
  have "4 \<le> length m"
    using assms(1) by (simp add: is_vector_def)
  then obtain std where "KalmanFilter_create_std m = Some std"
    by (simp add: create_std_Some)
  then show ?thesis
    using assms by (simp add: KalmanFilter_predict_def)
qed

lemma those_map_Some: "those (map (\<lambda>x. Some (f x)) xs) = Some (map f xs)"
  by (induction xs) simp_all

lemma predicts_Some:
  assumes "is_matrix (length means) 8 means" and "length covs = length means"
      and "list_all (is_matrix 8 8) covs"
  shows "those (map2 KalmanFilter_predict means covs) =
           Some (map2 (\<lambda>m c. (vec_mat m (mat_T motion_mat),
                   mat_add (mat_mul (mat_mul motion_mat c) (mat_T motion_mat))
                           (diag (map square (the (KalmanFilter_create_std m)))))) means covs)"
proof -
  have "map2 KalmanFilter_predict means covs =
        map (\<lambda>p. Some (case p of (m, c) \<Rightarrow> (vec_mat m (mat_T motion_mat),
                   mat_add (mat_mul (mat_mul motion_mat c) (mat_T motion_mat))
                           (diag (map square (the (KalmanFilter_create_std m))))))) (zip means covs)"
  proof (rule map_cong [OF refl])
    fix p assume pin: "p \<in> set (zip means covs)"
    obtain m c where p: "p = (m, c)"
      by (cases p)
    have m: "m \<in> set means" and c: "c \<in> set covs"
      using pin unfolding p by (auto dest: set_zip_leftD set_zip_rightD)
    have "is_vector 8 m"
      using assms(1) m by (auto simp: is_vector_def dest: is_matrix_rows)
    moreover have "is_matrix 8 8 c"
      using assms(3) c by (simp add: list_all_iff)
    ultimately show "(case p of (m, c) \<Rightarrow> KalmanFilter_predict m c) =
        Some (case p of (m, c) \<Rightarrow> (vec_mat m (mat_T motion_mat),
                   mat_add (mat_mul (mat_mul motion_mat c) (mat_T motion_mat))
                           (diag (map square (the (KalmanFilter_create_std m))))))"
      by (simp add: p predict_Some)
  qed
  then show ?thesis
    by (simp only: those_map_Some)
qed

text \<open>
  C8. For \<open>K \<ge> 1\<close> means of length 8 and \<open>K\<close> covariances of shape \<open>8 \<times> 8\<close>, the
  vectorised \<open>multi_predict\<close> succeeds and returns the list of the means and the list
  of the covariances that \<open>K\<close> separate calls of \<open>predict\<close> return, each with the process
  noise built from its own mean.
\<close>

theorem multi_predict_is_predict_each:
  assumes "means \<noteq> []" and "is_matrix (length means) 8 means"
      and "length covs = length means" and "list_all (is_matrix 8 8) covs"
  shows "\<exists>ps. those (map2 KalmanFilter_predict means covs) = Some ps \<and> length ps = length means \<and>
              KalmanFilter_multi_predict means covs = Some (map fst ps, map snd ps)"
proof -
  let ?pm = "\<lambda>m. vec_mat m (mat_T motion_mat)"
  let ?pc = "\<lambda>m c. mat_add (mat_mul (mat_mul motion_mat c) (mat_T motion_mat))
                           (diag (map square (the (KalmanFilter_create_std m))))"
  let ?ps = "map2 (\<lambda>m c. (?pm m, ?pc m c)) means covs"
  have each: "those (map2 KalmanFilter_predict means covs) = Some ?ps"
    using assms(2-4) by (rule predicts_Some)
  have len: "length means = length covs"
    using assms(3) by simp
  have fsts: "map fst ?ps = mat_mul means (mat_T motion_mat)"
    unfolding mat_mul_def using len by (induction rule: list_induct2) simp_all
  have snds: "map snd ?ps =
      map2 mat_add (map (\<lambda>c. mat_mul (mat_mul motion_mat c) (mat_T motion_mat)) covs)
                   (map diag (map (map square) (map (\<lambda>m. the (KalmanFilter_create_std m)) means)))"
    using len by (induction rule: list_induct2) simp_all
  have std: "KalmanFilter_create_std_batch means =
               Some (map (\<lambda>m. the (KalmanFilter_create_std m)) means)"
    using assms(1,2) by (rule create_std_batch_rows)
  have multi: "KalmanFilter_multi_predict means covs = Some (map fst ?ps, map snd ?ps)"
    unfolding fsts snds KalmanFilter_multi_predict_def std
    using assms by (simp add: Let_def)
  have "length ?ps = length means"
    using len by simp
  with each multi show ?thesis
    by blast
qed


theorem multi_predict_is_predict_each_witness:
  "\<exists>ps. those (map2 KalmanFilter_predict
                [[Fin 150, Fin 200, Fin (1 / 2), Fin 200, Fin 0, Fin 0, Fin 0, Fin 0],
                 [Fin 450, Fin 200, Fin (1 / 2), Fin 100, Fin 1, Fin 0, Fin 0, Fin 0]]
                [eye 8 8, eye 8 8]) = Some ps \<and>
        length ps = length [[Fin 150, Fin 200, Fin (1 / 2), Fin 200, Fin 0, Fin 0, Fin 0, Fin 0],
                 [Fin 450, Fin 200, Fin (1 / 2), Fin 100, Fin 1, Fin 0, Fin 0, Fin 0]] \<and>
        KalmanFilter_multi_predict
                [[Fin 150, Fin 200, Fin (1 / 2), Fin 200, Fin 0, Fin 0, Fin 0, Fin 0],
                 [Fin 450, Fin 200, Fin (1 / 2), Fin 100, Fin 1, Fin 0, Fin 0, Fin 0]]
                [eye 8 8, eye 8 8] = Some (map fst ps, map snd ps)"
  by (rule multi_predict_is_predict_each) (simp_all add: is_matrix_def eye_def list_all_iff)

section \<open>Assignment kernel: what linear\_assignment returns\<close>




lemma in_bounds_clip [simp]: "in_bounds (clip_costs C t) = in_bounds C"
  by (rule ext) (simp add: in_bounds_def clip_costs_def)














section \<open>Tracks: a box of height zero\<close>

text \<open>
  C10. \<open>tlwh_to_xyah\<close> divides the width by the height without a guard. For every box
  of finite coordinates whose height is exactly 0, every score, frame and counter,
  building an \<open>STrack\<close> and calling \<open>activate\<close> raises no error and leaves a Kalman
  mean whose aspect-ratio component is not finite: an infinity of the sign of the width,
  or NaN when the width is 0 too.
\<close>

theorem activate_zero_height:
  "\<exists>t c m. activate (STrack_init [Fin x, Fin y, Fin w, Fin 0] s) frame count = Some (t, c) \<and>
           mean t = Some m \<and> state t = Some Tracked \<and>
           m ! 2 = (if w = 0 then NaN else if 0 < w then PInf else NInf) \<and>
           \<not> isfinite (m ! 2)"
  by (simp add: activate_def STrack_init_def next_id_def KalmanFilter_initiate_def
        KalmanFilter_create_std_def Let_def signed_inf_def)

theorem activate_zero_height_witness:
  "\<exists>t c m. activate (STrack_init [Fin 100, Fin 100, Fin 100, Fin 0] (Fin (9 / 10))) 2 0 = Some (t, c) \<and>
           mean t = Some m \<and> state t = Some Tracked \<and>
           m ! 2 = (if (100::real) = 0 then NaN else if (0::real) < 100 then PInf else NInf) \<and>
           \<not> isfinite (m ! 2)"
  by (rule activate_zero_height)

section \<open>The tracker: construction, partition of the detections, de-duplication\<close>










section \<open>De-duplication: which track of a close pair is dropped\<close>







section \<open>The tracker on concrete streams\<close>

lemma run_updates_step:
  "run_updates lsa s (frame # frames) = run_updates lsa (run_updates lsa s [frame]) frames"
  by simp


lemma expiry_frame_1:
  "run_updates enumerate_lsa (new_tracker (1 / 4) 1 (4 / 5) 30) [one_detection] = after_frame_1"
  by code_simp

lemma expiry_frame_2:
  "run_updates enumerate_lsa after_frame_1 [no_detection] = after_frame_2"
  by code_simp

lemma expiry_frame_3:
  "observe (run_updates enumerate_lsa after_frame_2 [no_detection])
     = Some (3, [], [(0, Some Removed, True)], [(0, Some Removed, True), (0, Some Removed, True)])"
  by code_simp

text \<open>
  C2 on the frame in which a lost track expires. With \<open>max_time_lost = 1\<close>, a track seen
  in frame 1 and never again is Lost after frame 2 and expires in frame 3. After frame 3
  it has state Removed, it is still in the lost list, and it is in the removed list
  twice: not in exactly one list, and in a list that does not match its state.
\<close>

theorem expired_track_in_lost_and_removed:
  "observe (run_updates enumerate_lsa (new_tracker (1 / 4) 1 (4 / 5) 30)
              [one_detection, no_detection, no_detection])
     = Some (3, [], [(0, Some Removed, True)], [(0, Some Removed, True), (0, Some Removed, True)])"
proof -
  have "run_updates enumerate_lsa (new_tracker (1 / 4) 1 (4 / 5) 30)
          [one_detection, no_detection, no_detection]
        = run_updates enumerate_lsa after_frame_2 [no_detection]"
    by (simp only: run_updates_step [of _ _ _ "[no_detection, no_detection]"]
          run_updates_step [of _ _ _ "[no_detection]"] expiry_frame_1 expiry_frame_2)
  then show ?thesis
    by (simp only: expiry_frame_3)
qed

section \<open>The tracker: activation of the tracks in the tracked list\<close>

subsection \<open>Steps on the world\<close>

lemma preserves_refl: "preserves P w w"
  by (simp add: preserves_def)

lemma preserves_trans: "preserves P w1 w2 \<Longrightarrow> preserves P w2 w3 \<Longrightarrow> preserves P w1 w3"
  by (simp add: preserves_def)


lemma deref_count [simp]: "deref (w\<lparr>BaseTrack_count := c\<rparr>) r = deref w r"
  by (simp add: deref_def)





lemma alloc_preserves: "alloc w t = (w', r) \<Longrightarrow> preserves P w w'"
  by (auto simp: alloc_def preserves_def holds_at_def deref_def nth_append split: option.splits if_splits)






lemma get_detections_preserves:
  "get_detections w ds = Some (w', rs) \<Longrightarrow> preserves P w w'"
proof (induction ds arbitrary: w w' rs)
  case Nil
  then show ?case by (simp add: preserves_refl)
next
  case (Cons d ds)
  obtain box s where d: "d = (box, s)"
    by (cases d)
  from Cons.prems obtain box_tlwh w1 r rs' where
    a: "alloc w (STrack_init box_tlwh s) = (w1, r)" and
    rest: "get_detections w1 ds = Some (w', rs')"
    by (auto simp: d split: Option.bind_splits prod.splits)
  show ?case
    using alloc_preserves [OF a] Cons.IH [OF rest] by (rule preserves_trans)
qed






subsection \<open>The loops of update\<close>








subsection \<open>The list helpers\<close>














subsection \<open>One call of update\<close>








end
